theory Spec2Isabelle
  imports Main
begin

section \<open>Data model\<close>

text \<open>
  The component \<open>ResponsePane\<close> (src/app/ui/components/ResponsePane.js) reads a request from
  its props and keeps the response it shows in its state. JavaScript strings are modelled
  as \<open>string\<close>: one \<open>char\<close> stands for one code unit below 256. Byte buffers are modelled
  as \<open>string\<close> too, one \<open>char\<close> per byte. The field \<open>_id\<close> of the source is written
  \<open>request_id\<close> and \<open>response_id\<close>.
\<close>

record Request =
  request_id :: string

text \<open>
  The fields of a response that the component reads (\<open>render\<close> and
  \<open>_handleDownloadResponseBody\<close>), with \<open>parentId\<close> and \<open>created\<close>, which the storage
  lookup uses. \<open>error\<close> is the optional error string.
\<close>

record Response =
  response_id :: string
  parentId :: string
  created :: nat
  statusCode :: int
  statusMessage :: string
  elapsedTime :: nat
  bytesRead :: nat
  url :: string
  headers :: "(string \<times> string) list"
  body :: string
  encoding :: string
  contentType :: string
  error :: "string option"

text \<open>
  The props the component reads (the callbacks among them are left out), its state
  (\<open>state = {response: null}\<close>), and the component: its props, its state and the calls of
  \<open>models.response.getLatestByParentId\<close> that have not resolved yet, oldest first, each
  with the request id it was given.
\<close>

record props =
  request :: "Request option"
  previewMode :: string
  filter_text :: string
  loadStartTime :: int
  editorLineWrapping :: bool
  editorFontSize :: nat

record pane_state =
  response :: "Response option"

record component =
  props :: props
  state :: pane_state
  pending :: "string list"

section \<open>The host: collaborators that are not code of the component\<close>

text \<open>
  An exception thrown by the runtime, the error object that \<open>fs.writeFile\<close> hands to its
  callback, and the completion of an \<open>async\<close> function: its promise is resolved, or
  rejected with the exception that escaped the body.
\<close>

datatype js_error = TypeError string

datatype io_error = IOError string

datatype completion = Resolved | Rejected js_error

text \<open>
  \<open>new Buffer(body, encoding)\<close> and \<open>mime.extension(contentType)\<close> are functions of the
  Node runtime and of the package mime-types. The handler takes them from a \<open>host\<close>:
  \<open>Buffer_new\<close> returns the bytes or the exception it throws, \<open>mime_extension\<close> returns
  the extension or \<open>None\<close> where the package returns \<open>false\<close>.
\<close>

record host =
  Buffer_new :: "string \<Rightarrow> string \<Rightarrow> js_error + string"
  mime_extension :: "string \<Rightarrow> string option"

text \<open>The calls the handler makes to the host, in the order it makes them.\<close>

record save_dialog_options =
  title :: string
  buttonLabel :: string
  filters :: "(string \<times> string list) list"

record writeFile_options =
  wf_encoding :: "string option"
  wf_mode :: "nat option"
  wf_flag :: "string option"

datatype effect =
    ConsoleWarn string "io_error option"
  | ShowSaveDialog save_dialog_options
  | WriteFile string string writeFile_options
  | TrackEvent string string

section \<open>\<open>_handleDownloadResponseBody\<close>\<close>

text \<open>
  JavaScript truthiness of an optional string: \<open>undefined\<close> and \<open>null\<close> (here \<open>None\<close>)
  and the empty string are falsy.
\<close>

definition truthy :: "string option \<Rightarrow> bool" where
  "truthy s = (case s of None \<Rightarrow> False | Some v \<Rightarrow> v \<noteq> [])"

text \<open>The options object \<open>{}\<close> passed to \<open>fs.writeFile\<close>.\<close>

definition no_options :: writeFile_options where
  "no_options = \<lparr>wf_encoding = None, wf_mode = None, wf_flag = None\<rparr>"

text \<open>
  The callback of \<open>fs.writeFile\<close> (lines 56 to 64): \<open>err\<close> is the error of the write, or
  \<open>None\<close> when it completed.
\<close>

definition writeFile_callback :: "io_error option \<Rightarrow> effect list" where
  "writeFile_callback err =
     (case err of
        Some e \<Rightarrow> [ConsoleWarn ''Failed to save response body'' (Some e),
                   TrackEvent ''Response'' ''Save Failure'']
      | None \<Rightarrow> [TrackEvent ''Response'' ''Save Success''])"

text \<open>
  The callback of \<open>remote.dialog.showSaveDialog\<close> (lines 50 to 65): \<open>filename\<close> is the
  answer of the dialog, \<open>err\<close> the answer of the file system to the write, read only if
  the write is made.
\<close>

definition showSaveDialog_callback ::
  "string \<Rightarrow> string option \<Rightarrow> io_error option \<Rightarrow> effect list" where
  "showSaveDialog_callback bodyBuffer filename err =
     (case filename of
        None \<Rightarrow> [TrackEvent ''Response'' ''Save Cancel'']
      | Some path \<Rightarrow>
          if path = [] then [TrackEvent ''Response'' ''Save Cancel'']
          else WriteFile path bodyBuffer no_options # writeFile_callback err)"

text \<open>\<open>mime.extension(contentType) || ''\<close> (line 40).\<close>

definition default_extension :: "host \<Rightarrow> string \<Rightarrow> string" where
  "default_extension h ct = (case mime_extension h ct of Some e \<Rightarrow> e | None \<Rightarrow> [])"

text \<open>The \<open>options\<close> of the save dialog (lines 42 to 48).\<close>

definition save_options :: "string \<Rightarrow> save_dialog_options" where
  "save_options extension =
     \<lparr>title = ''Save Response'', buttonLabel = ''Save'',
      filters = [(''Download'', [extension])]\<rparr>"

text \<open>
  The handler (lines 31 to 66). It returns the completion of its promise, the calls made
  to the host and the component afterwards; \<open>filename\<close> and \<open>err\<close> are the
  answers of the save dialog and of the file system.
\<close>

definition handleDownloadResponseBody ::
  "host \<Rightarrow> component \<Rightarrow> string option \<Rightarrow> io_error option \<Rightarrow>
     completion \<times> effect list \<times> component" where
  "handleDownloadResponseBody h c filename err =
     (case response (state c) of
        None \<Rightarrow> (Resolved, [ConsoleWarn ''No response to download'' None], c)
      | Some r \<Rightarrow>
          (case Buffer_new h (body r) (encoding r) of
             Inl exn \<Rightarrow> (Rejected exn, [], c)
           | Inr bodyBuffer \<Rightarrow>
               let extension = default_extension h (contentType r);
                   options = save_options extension
               in (Resolved,
                   ShowSaveDialog options # showSaveDialog_callback bodyBuffer filename err,
                   c)))"

section \<open>The Node runtime as a host\<close>

text \<open>
  \<open>String.prototype.toLowerCase\<close> on code units below 256: the letters A to Z and the
  accented capitals 192 to 222, without the multiplication sign 215.
\<close>

definition toLowerCase :: "string \<Rightarrow> string" where
  "toLowerCase s =
     map (\<lambda>c. let n = (of_char c :: nat) in
               if (65 \<le> n \<and> n \<le> 90) \<or> (192 \<le> n \<and> n \<le> 222 \<and> n \<noteq> 215)
               then char_of (n + 32) else c) s"

text \<open>\<open>Buffer.isEncoding\<close>: the names of the encodings of Node, in any letter case.\<close>

definition encoding_names :: "string list" where
  "encoding_names =
     [''hex'', ''utf8'', ''utf-8'', ''ascii'', ''latin1'', ''binary'', ''base64'',
      ''ucs2'', ''ucs-2'', ''utf16le'', ''utf-16le'']"

definition isEncoding :: "string \<Rightarrow> bool" where
  "isEncoding enc = (toLowerCase enc \<in> set encoding_names)"

text \<open>
  base64: the value of a character of the alphabet (the URL-safe \<open>-\<close> and \<open>_\<close> are
  accepted too). The decoder skips every other character, stops at the first \<open>=\<close> and
  packs the six-bit values into bytes; an incomplete last byte is dropped.
\<close>

definition unbase64 :: "char \<Rightarrow> nat option" where
  "unbase64 c =
     (let n = (of_char c :: nat) in
      if 65 \<le> n \<and> n \<le> 90 then Some (n - 65)
      else if 97 \<le> n \<and> n \<le> 122 then Some (n - 71)
      else if 48 \<le> n \<and> n \<le> 57 then Some (n + 4)
      else if c = CHR ''+'' \<or> c = CHR ''-'' then Some 62
      else if c = CHR ''/'' \<or> c = CHR ''_'' then Some 63
      else None)"

fun pack_sextets :: "nat list \<Rightarrow> string" where
  "pack_sextets (a # b # c # d # rest) =
     char_of (a * 4 + b div 16) # char_of ((b mod 16) * 16 + c div 4) #
     char_of ((c mod 4) * 64 + d) # pack_sextets rest"
| "pack_sextets [a, b, c] = [char_of (a * 4 + b div 16), char_of ((b mod 16) * 16 + c div 4)]"
| "pack_sextets [a, b] = [char_of (a * 4 + b div 16)]"
| "pack_sextets _ = []"

definition base64_decode :: "string \<Rightarrow> string" where
  "base64_decode s =
     pack_sextets (List.map_filter unbase64 (takeWhile (\<lambda>c. c \<noteq> CHR ''='') s))"

text \<open>
  hex: two digits give a byte; decoding stops at the first pair that is not two
  hexadecimal digits, and a last single character is dropped (Node 8 and later; before,
  a string of odd length was a \<open>TypeError\<close>).
\<close>

definition hex_digit :: "char \<Rightarrow> nat option" where
  "hex_digit c =
     (let n = (of_char c :: nat) in
      if 48 \<le> n \<and> n \<le> 57 then Some (n - 48)
      else if 65 \<le> n \<and> n \<le> 70 then Some (n - 55)
      else if 97 \<le> n \<and> n \<le> 102 then Some (n - 87)
      else None)"

fun hex_decode :: "string \<Rightarrow> string" where
  "hex_decode (a # b # rest) =
     (case hex_digit a of
        None \<Rightarrow> []
      | Some x \<Rightarrow> (case hex_digit b of
                     None \<Rightarrow> []
                   | Some y \<Rightarrow> char_of (x * 16 + y) # hex_decode rest))"
| "hex_decode _ = []"

text \<open>
  utf8 and utf16le of code units below 256: one or two bytes in UTF-8, the unit and a
  zero byte in UTF-16LE. latin1, binary and ascii keep the low byte of each unit.
\<close>

definition utf8_encode :: "string \<Rightarrow> string" where
  "utf8_encode s =
     concat (map (\<lambda>c. let n = (of_char c :: nat) in
                       if n < 128 then [c]
                       else [char_of (192 + n div 64), char_of (128 + n mod 64)]) s)"

definition utf16le_encode :: "string \<Rightarrow> string" where
  "utf16le_encode s = concat (map (\<lambda>c. [c, char_of (0 :: nat)]) s)"

text \<open>
  \<open>new Buffer(string, encoding)\<close>: an empty encoding stands for utf8, a name that
  \<open>Buffer.isEncoding\<close> refuses is a \<open>TypeError\<close>, and the string is decoded by the
  encoding of that name otherwise.
\<close>

definition node_Buffer :: "string \<Rightarrow> string \<Rightarrow> js_error + string" where
  "node_Buffer s enc =
     (let encoding' = (if enc = [] then ''utf8'' else enc) in
      if \<not> isEncoding encoding' then Inl (TypeError (''Unknown encoding: '' @ enc))
      else let e = toLowerCase encoding' in
        if e = ''base64'' then Inr (base64_decode s)
        else if e = ''hex'' then Inr (hex_decode s)
        else if e = ''utf8'' \<or> e = ''utf-8'' then Inr (utf8_encode s)
        else if e = ''ascii'' \<or> e = ''latin1'' \<or> e = ''binary'' then Inr s
        else Inr (utf16le_encode s))"

text \<open>
  The encoding tags that \<open>new Buffer\<close> accepts: the names of \<open>Buffer.isEncoding\<close>, and
  the empty tag, read as utf8.
\<close>

definition supported_encoding :: "string \<Rightarrow> bool" where
  "supported_encoding enc = (enc = [] \<or> isEncoding enc)"

text \<open>An excerpt of the table of mime-types, and the host made of both.\<close>

definition mime_excerpt :: "string \<Rightarrow> string option" where
  "mime_excerpt ct =
     (if ct = ''application/json'' then Some ''json''
      else if ct = ''text/plain'' then Some ''txt''
      else if ct = ''text/html'' then Some ''html''
      else None)"

definition node_host :: host where
  "node_host = \<lparr>Buffer_new = node_Buffer, mime_extension = mime_excerpt\<rparr>"

text \<open>
  \<open>fs.writeFile\<close> when it completes without error: with a flag that starts with \<open>a\<close> the
  data is appended to the file; otherwise (the default flag is \<open>w\<close>) the file is created
  or truncated and holds the data alone.
\<close>

definition appending :: "writeFile_options \<Rightarrow> bool" where
  "appending opts = (case wf_flag opts of None \<Rightarrow> False | Some f \<Rightarrow> take 1 f = ''a'')"

definition fs_writeFile ::
  "(string \<rightharpoonup> string) \<Rightarrow> string \<Rightarrow> string \<Rightarrow> writeFile_options \<Rightarrow> (string \<rightharpoonup> string)" where
  "fs_writeFile files path data opts =
     (if appending opts
      then files(path \<mapsto> (case files path of None \<Rightarrow> data | Some old \<Rightarrow> old @ data))
      else files(path \<mapsto> data))"

text \<open>The calls of one kind among the calls made to the host.\<close>

fun is_dialog :: "effect \<Rightarrow> bool" where
  "is_dialog (ShowSaveDialog _) = True"
| "is_dialog _ = False"

fun is_write :: "effect \<Rightarrow> bool" where
  "is_write (WriteFile _ _ _) = True"
| "is_write _ = False"

fun is_track :: "effect \<Rightarrow> bool" where
  "is_track (TrackEvent _ _) = True"
| "is_track _ = False"

definition count_of :: "(effect \<Rightarrow> bool) \<Rightarrow> effect list \<Rightarrow> nat" where
  "count_of p es = length (filter p es)"

section \<open>\<open>_getResponse\<close> and the lifecycle\<close>

text \<open>Modelled from the spec: the order of the storage lookup, which is not among the
  sources (app/models). Of a response and the best one so far, the one created later is
  kept ("the most recently created response").
\<close>

definition more_recent :: "Response \<Rightarrow> Response option \<Rightarrow> Response option" where
  "more_recent r best =
     (case best of
        None \<Rightarrow> Some r
      | Some b \<Rightarrow> if created b < created r then Some r else Some b)"

text \<open>Modelled from the spec: \<open>models.response.getLatestByParentId\<close>, which is not among
  the sources (app/models). The response-storage subsystem answers with the most recently
  created response whose parent request identifier equals the given id, or with absent
  if none exists. The storage is the list of the stored responses.
\<close>

definition getLatestByParentId :: "Response list \<Rightarrow> string \<Rightarrow> Response option" where
  "getLatestByParentId db rid =
     fold (\<lambda>r best. if parentId r = rid then more_recent r best else best) db None"

text \<open>\<open>this.setState({response})\<close>\<close>

definition setState :: "Response option \<Rightarrow> component \<Rightarrow> component" where
  "setState r c = c\<lparr>state := (state c)\<lparr>response := r\<rparr>\<rparr>"

text \<open>
  \<open>_getResponse\<close> (lines 22 to 29) up to its \<open>await\<close>: without a request the state is set
  at once; with one, the lookup is started and the function is suspended.
\<close>

definition getResponse :: "Request option \<Rightarrow> component \<Rightarrow> component" where
  "getResponse req c =
     (case req of
        None \<Rightarrow> setState None c
      | Some r \<Rightarrow> c\<lparr>pending := pending c @ [request_id r]\<rparr>)"

text \<open>
  \<open>_getResponse\<close> after its \<open>await\<close>: the lookup at position \<open>i\<close> of the pending ones
  resolves with the answer of the storage, and the state is set to it (line 27).
\<close>

definition getResponse_resumed :: "Response list \<Rightarrow> nat \<Rightarrow> component \<Rightarrow> component" where
  "getResponse_resumed db i c =
     (if i < length (pending c)
      then setState (getLatestByParentId db (pending c ! i))
             (c\<lparr>pending := take i (pending c) @ drop (Suc i) (pending c)\<rparr>)
      else c)"

text \<open>
  \<open>componentWillReceiveProps\<close> (lines 68 to 70), after which the component has the new
  props, and \<open>componentDidMount\<close> (lines 72 to 74).
\<close>

definition componentWillReceiveProps :: "props \<Rightarrow> component \<Rightarrow> component" where
  "componentWillReceiveProps nextProps c = (getResponse (request nextProps) c)\<lparr>props := nextProps\<rparr>"

definition componentDidMount :: "component \<Rightarrow> component" where
  "componentDidMount c = getResponse (request (props c)) c"

text \<open>The component when it is constructed with its first props.\<close>

definition construct :: "props \<Rightarrow> component" where
  "construct p = \<lparr>props = p, state = \<lparr>response = None\<rparr>, pending = []\<rparr>"

text \<open>The events of the life of the component, and a run of them.\<close>

datatype event = Mount | ReceiveProps props | LookupResolves nat

fun step :: "Response list \<Rightarrow> event \<Rightarrow> component \<Rightarrow> component" where
  "step db Mount c = componentDidMount c"
| "step db (ReceiveProps p) c = componentWillReceiveProps p c"
| "step db (LookupResolves i) c = getResponse_resumed db i c"

definition run :: "Response list \<Rightarrow> event list \<Rightarrow> component \<Rightarrow> component" where
  "run db evs c = fold (step db) evs c"

text \<open>All pending lookups resolve, in the order in which they were started.\<close>

fun resolve_in_order :: "Response list \<Rightarrow> nat \<Rightarrow> component \<Rightarrow> component" where
  "resolve_in_order db 0 c = c"
| "resolve_in_order db (Suc n) c = resolve_in_order db n (getResponse_resumed db 0 c)"

section \<open>\<open>render\<close>\<close>

text \<open>
  What \<open>render\<close> (lines 76 to 260) returns: the empty placeholder without a request, the
  placeholder with the keyboard shortcuts without a response, and otherwise the pane of
  the response in the state, with the props of the \<open>ResponseViewer\<close> of the first tab.
  The flag says whether the loading overlay is there (\<open>loadStartTime >= 0\<close>); its text
  depends on the clock and is left out, as are the props that pass the editor settings
  on. \<open>PREVIEW_MODE_SOURCE\<close> is a constant of common/constants and is a parameter.
\<close>

record viewer_props =
  v_bytes :: nat
  v_contentType :: string
  v_previewMode :: string
  v_filter :: string
  v_updateFilter :: bool
  v_body :: string
  v_encoding :: string
  v_error :: bool
  v_responseId :: string
  v_url :: string

datatype view =
    EmptyPlaceholder
  | ShortcutsPlaceholder bool
  | ResponseView bool Response viewer_props

definition render :: "string \<Rightarrow> component \<Rightarrow> view" where
  "render PREVIEW_MODE_SOURCE c =
     (let timer = (0 \<le> loadStartTime (props c)) in
      case request (props c) of
        None \<Rightarrow> EmptyPlaceholder
      | Some req \<Rightarrow>
          (case response (state c) of
             None \<Rightarrow> ShortcutsPlaceholder timer
           | Some r \<Rightarrow>
               ResponseView timer r
                 \<lparr>v_bytes = bytesRead r,
                  v_contentType = contentType r,
                  v_previewMode =
                    (if truthy (error r) then PREVIEW_MODE_SOURCE else previewMode (props c)),
                  v_filter = filter_text (props c),
                  v_updateFilter = (\<not> truthy (error r)),
                  v_body =
                    (case error r of
                       None \<Rightarrow> body r
                     | Some e \<Rightarrow> if e = [] then body r else e),
                  v_encoding = encoding r,
                  v_error = truthy (error r),
                  v_responseId = response_id r,
                  v_url = url r\<rparr>))"

text \<open>The response on display, if any.\<close>

definition displayed :: "view \<Rightarrow> Response option" where
  "displayed v = (case v of ResponseView _ r _ \<Rightarrow> Some r | _ \<Rightarrow> None)"

section \<open>Concrete inputs\<close>

text \<open>Two requests, stored responses of theirs, and components that show them.\<close>

definition request1 :: Request where
  "request1 = \<lparr>request_id = ''req_1''\<rparr>"

definition request2 :: Request where
  "request2 = \<lparr>request_id = ''req_2''\<rparr>"

definition response1 :: Response where
  "response1 =
     \<lparr>response_id = ''res_1'', parentId = ''req_1'', created = 1, statusCode = 200,
      statusMessage = ''OK'', elapsedTime = 12, bytesRead = 5, url = ''http://localhost/a'',
      headers = [(''Content-Type'', ''text/plain'')], body = ''SGVsbG8='',
      encoding = ''base64'', contentType = ''text/plain'', error = None\<rparr>"

definition response1_old :: Response where
  "response1_old = response1\<lparr>response_id := ''res_0'', created := 0, body := ''b2xk''\<rparr>"

definition response2 :: Response where
  "response2 =
     \<lparr>response_id = ''res_2'', parentId = ''req_2'', created = 2, statusCode = 200,
      statusMessage = ''OK'', elapsedTime = 7, bytesRead = 2, url = ''http://localhost/b'',
      headers = [(''Content-Type'', ''application/json'')], body = ''{}'',
      encoding = ''utf8'', contentType = ''application/json'', error = None\<rparr>"

definition response_rot13 :: Response where
  "response_rot13 = response1\<lparr>encoding := ''rot13''\<rparr>"

definition response_failed :: Response where
  "response_failed =
     response1\<lparr>statusCode := 0, statusMessage := ''Error'', body := ''RVJS'',
               error := Some ''Error: connect ECONNREFUSED''\<rparr>"

definition storage :: "Response list" where
  "storage = [response1_old, response1, response2]"

definition props_of :: "Request option \<Rightarrow> props" where
  "props_of r =
     \<lparr>request = r, previewMode = ''friendly'', filter_text = [], loadStartTime = - 1,
      editorLineWrapping = True, editorFontSize = 12\<rparr>"

definition showing :: "Response \<Rightarrow> component" where
  "showing r = \<lparr>props = props_of (Some request1), state = \<lparr>response = Some r\<rparr>, pending = []\<rparr>"

text \<open>
  The pane is mounted with the first request and switched to the second; the lookup of
  the second request resolves, then the one of the first.
\<close>

definition stale_run :: component where
  "stale_run =
     run storage
       [Mount, ReceiveProps (props_of (Some request2)), LookupResolves 1, LookupResolves 0]
       (construct (props_of (Some request1)))"

section \<open>The handler, case by case\<close>

lemma count_of_Nil: "count_of p [] = 0"
  by (simp add: count_of_def)

lemma count_of_Cons:
  "count_of p (e # es) = (if p e then Suc (count_of p es) else count_of p es)"
  by (simp add: count_of_def)

lemma handler_no_response:
  "response (state c) = None \<Longrightarrow>
     handleDownloadResponseBody h c filename err =
       (Resolved, [ConsoleWarn ''No response to download'' None], c)"
  by (simp add: handleDownloadResponseBody_def)

lemma handler_raise:
  "response (state c) = Some r \<Longrightarrow> Buffer_new h (body r) (encoding r) = Inl exn \<Longrightarrow>
     handleDownloadResponseBody h c filename err = (Rejected exn, [], c)"
  by (simp add: handleDownloadResponseBody_def)

lemma handler_decoded:
  "response (state c) = Some r \<Longrightarrow> Buffer_new h (body r) (encoding r) = Inr buf \<Longrightarrow>
     handleDownloadResponseBody h c filename err =
       (Resolved,
        ShowSaveDialog (save_options (default_extension h (contentType r))) #
          showSaveDialog_callback buf filename err,
        c)"
  by (simp add: handleDownloadResponseBody_def)

lemma callback_cancel:
  "\<not> truthy filename \<Longrightarrow>
     showSaveDialog_callback buf filename err = [TrackEvent ''Response'' ''Save Cancel'']"
  by (simp add: showSaveDialog_callback_def truthy_def split: option.splits)

lemma callback_write:
  "path \<noteq> [] \<Longrightarrow>
     showSaveDialog_callback buf (Some path) err =
       WriteFile path buf no_options # writeFile_callback err"
  by (simp add: showSaveDialog_callback_def)

lemma node_Buffer_hello: "node_Buffer ''SGVsbG8='' ''base64'' = Inr ''Hello''"
  by code_simp

lemma not_appending_no_options: "\<not> appending no_options"
  by (simp add: appending_def no_options_def)

lemma showing_response: "response (state (showing r)) = Some r"
  by (simp add: showing_def)

lemma response1_fields:
  "body response1 = ''SGVsbG8=''" "encoding response1 = ''base64''"
  "contentType response1 = ''text/plain''"
  by (simp_all add: response1_def)

lemma node_host_fields:
  "Buffer_new node_host = node_Buffer" "mime_extension node_host = mime_excerpt"
  by (simp_all add: node_host_def)

lemma isEncoding_utf8: "isEncoding ''utf8''"
  by code_simp

lemma node_Buffer_refuses:
  "\<not> supported_encoding enc \<Longrightarrow> node_Buffer s enc = Inl (TypeError (''Unknown encoding: '' @ enc))"
  by (simp add: node_Buffer_def supported_encoding_def)

lemma node_Buffer_accepts:
  "supported_encoding enc \<Longrightarrow> \<exists>buf. node_Buffer s enc = Inr buf"
  by (auto simp: node_Buffer_def supported_encoding_def Let_def isEncoding_utf8)

lemma not_supported_rot13: "\<not> supported_encoding ''rot13''"
  by code_simp

lemma supported_base64: "supported_encoding ''base64''"
  by code_simp

lemma response_rot13_fields:
  "body response_rot13 = ''SGVsbG8=''" "encoding response_rot13 = ''rot13''"
  "contentType response_rot13 = ''text/plain''"
  by (simp_all add: response_rot13_def response1_def)

lemma node_Buffer_rot13:
  "node_Buffer ''SGVsbG8='' ''rot13'' = Inl (TypeError ''Unknown encoding: rot13'')"
  using node_Buffer_refuses [OF not_supported_rot13] by simp

lemma state_setState: "response (state (setState x c)) = x"
  by (simp add: setState_def)

lemma props_setState: "props (setState x c) = props c"
  by (simp add: setState_def)

lemma pending_setState: "pending (setState x c) = pending c"
  by (simp add: setState_def)

lemma response2_fields:
  "body response2 = ''{}''" "encoding response2 = ''utf8''"
  "contentType response2 = ''application/json''"
  by (simp_all add: response2_def)

lemma node_Buffer_braces: "node_Buffer ''{}'' ''utf8'' = Inr ''{}''"
  by code_simp

lemma node_Buffer_err: "node_Buffer ''RVJS'' ''base64'' = Inr ''ERR''"
  by code_simp

lemma response_failed_fields:
  "body response_failed = ''RVJS''" "encoding response_failed = ''base64''"
  "contentType response_failed = ''text/plain''"
  "response_failed\<lparr>error := Some ''Error: connect ECONNREFUSED''\<rparr> = response_failed"
  by (simp_all add: response_failed_def response1_def)

section \<open>Export without a loaded response\<close>

text \<open>
  C6. When no response is loaded, the export is a no-op that logs a warning: the promise
  of the handler is resolved (nothing is thrown), the only call to the host is the
  console warning, so no dialog is shown, no file is written and no event is tracked,
  and the component is left as it was.
\<close>

theorem exportBody_no_response:
  assumes "response (state c) = None"
  shows "handleDownloadResponseBody h c filename err =
           (Resolved, [ConsoleWarn ''No response to download'' None], c) \<and>
         count_of is_dialog (fst (snd (handleDownloadResponseBody h c filename err))) = 0 \<and>
         count_of is_write (fst (snd (handleDownloadResponseBody h c filename err))) = 0 \<and>
         count_of is_track (fst (snd (handleDownloadResponseBody h c filename err))) = 0"
  using assms by (simp add: handler_no_response count_of_Cons count_of_Nil)

theorem exportBody_no_response_witness:
  "response (state (construct (props_of (Some request1)))) = None \<and>
   handleDownloadResponseBody node_host (construct (props_of (Some request1)))
       (Some ''/tmp/out'') None =
     (Resolved, [ConsoleWarn ''No response to download'' None],
      construct (props_of (Some request1)))"
  using exportBody_no_response
    [of "construct (props_of (Some request1))" node_host "Some ''/tmp/out''" None]
  by (simp add: construct_def)

section \<open>Export of a loaded response\<close>

text \<open>
  C1. For every loaded response with body \<open>SGVsbG8=\<close>, encoding tag \<open>base64\<close> and
  content-type \<open>text/plain\<close>, on a host whose \<open>Buffer\<close> is the one of Node: when the user
  chooses a destination path and the write completes without error, the handler shows the
  save dialog, makes one call of \<open>fs.writeFile\<close> with the chosen path, the five bytes of
  \<open>Hello\<close> and the options \<open>{}\<close>, and tracks the event Save Success. The options ask for
  no appending, so the file at that path then holds exactly \<open>Hello\<close>, whatever it held.
\<close>

theorem exportBody_base64_hello:
  assumes "response (state c) = Some r"
    and "body r = ''SGVsbG8=''" and "encoding r = ''base64''"
    and "contentType r = ''text/plain''"
    and "Buffer_new h = node_Buffer"
    and "path \<noteq> []"
  shows "handleDownloadResponseBody h c (Some path) None =
           (Resolved,
            [ShowSaveDialog (save_options (default_extension h ''text/plain'')),
             WriteFile path ''Hello'' no_options,
             TrackEvent ''Response'' ''Save Success''],
            c) \<and>
         \<not> appending no_options \<and>
         fs_writeFile files path ''Hello'' no_options path = Some ''Hello''"
proof -
  have "Buffer_new h (body r) (encoding r) = Inr ''Hello''"
    using assms(2,3,5) node_Buffer_hello by simp
  then have "handleDownloadResponseBody h c (Some path) None =
      (Resolved,
       ShowSaveDialog (save_options (default_extension h (contentType r))) #
         showSaveDialog_callback ''Hello'' (Some path) None, c)"
    using assms(1) by (rule handler_decoded [rotated])
  moreover have "showSaveDialog_callback ''Hello'' (Some path) None =
      [WriteFile path ''Hello'' no_options, TrackEvent ''Response'' ''Save Success'']"
    using assms(6) by (simp add: callback_write writeFile_callback_def)
  moreover have "fs_writeFile files path ''Hello'' no_options path = Some ''Hello''"
    by (simp add: fs_writeFile_def not_appending_no_options)
  ultimately show ?thesis
    using assms(4) not_appending_no_options by simp
qed

theorem exportBody_base64_hello_witness:
  "handleDownloadResponseBody node_host (showing response1) (Some ''/tmp/hello.txt'') None =
     (Resolved,
      [ShowSaveDialog (save_options ''txt''),
       WriteFile ''/tmp/hello.txt'' ''Hello'' no_options,
       TrackEvent ''Response'' ''Save Success''],
      showing response1) \<and>
   fs_writeFile [''/tmp/hello.txt'' \<mapsto> ''previous content''] ''/tmp/hello.txt'' ''Hello''
     no_options ''/tmp/hello.txt'' = Some ''Hello''"
  using exportBody_base64_hello
    [of "showing response1" response1 node_host "''/tmp/hello.txt''"
        "[''/tmp/hello.txt'' \<mapsto> ''previous content'']"]
  by (simp add: showing_response response1_fields node_host_fields default_extension_def
      mime_excerpt_def)

text \<open>
  C4. For every export of a loaded response where the dialog gives no destination path
  (\<open>undefined\<close> or the empty string): no call of \<open>fs.writeFile\<close> is made and the failure
  event is not tracked; where the body was decoded, so that the dialog was shown, the
  calls are the dialog and the tracked event Save Cancel, and the promise is resolved.
  The event Save Cancel is another event than Save Failure.
\<close>

theorem exportBody_cancel:
  assumes "response (state c) = Some r" and "\<not> truthy filename"
  shows "count_of is_write (fst (snd (handleDownloadResponseBody h c filename err))) = 0 \<and>
         TrackEvent ''Response'' ''Save Failure''
           \<notin> set (fst (snd (handleDownloadResponseBody h c filename err))) \<and>
         (\<forall>buf. Buffer_new h (body r) (encoding r) = Inr buf \<longrightarrow>
            handleDownloadResponseBody h c filename err =
              (Resolved,
               [ShowSaveDialog (save_options (default_extension h (contentType r))),
                TrackEvent ''Response'' ''Save Cancel''],
               c))"
proof (cases "Buffer_new h (body r) (encoding r)")
  case (Inl exn)
  then show ?thesis
    using assms(1) by (simp add: handler_raise count_of_Nil)
next
  case (Inr buf)
  then show ?thesis
    using assms by (simp add: handler_decoded callback_cancel count_of_Cons count_of_Nil)
qed

theorem exportBody_cancel_witness:
  "\<not> truthy None \<and>
   handleDownloadResponseBody node_host (showing response1) None None =
     (Resolved,
      [ShowSaveDialog (save_options ''txt''), TrackEvent ''Response'' ''Save Cancel''],
      showing response1) \<and>
   count_of is_write
     (fst (snd (handleDownloadResponseBody node_host (showing response1) None None))) = 0"
  using exportBody_cancel [of "showing response1" response1 None node_host None]
    node_Buffer_hello
  by (simp add: showing_response response1_fields node_host_fields default_extension_def
      mime_excerpt_def truthy_def count_of_Cons count_of_Nil)

text \<open>
  C5. For every export of a loaded response that reaches the write (the body is decoded
  and the dialog gives a path), when \<open>fs.writeFile\<close> reports an error: the error is
  logged with \<open>console.warn\<close> and the event Save Failure is tracked, an event distinct
  from Save Cancel and Save Success; the promise of the handler is resolved (nothing is
  thrown), and \<open>fs.writeFile\<close> has been called once (no retry).
\<close>

theorem exportBody_write_failure:
  assumes "response (state c) = Some r"
    and "Buffer_new h (body r) (encoding r) = Inr buf"
    and "path \<noteq> []"
  shows "handleDownloadResponseBody h c (Some path) (Some e) =
           (Resolved,
            [ShowSaveDialog (save_options (default_extension h (contentType r))),
             WriteFile path buf no_options,
             ConsoleWarn ''Failed to save response body'' (Some e),
             TrackEvent ''Response'' ''Save Failure''],
            c) \<and>
         count_of is_write (fst (snd (handleDownloadResponseBody h c (Some path) (Some e)))) = 1 \<and>
         TrackEvent ''Response'' ''Save Failure'' \<noteq> TrackEvent ''Response'' ''Save Cancel'' \<and>
         TrackEvent ''Response'' ''Save Failure'' \<noteq> TrackEvent ''Response'' ''Save Success''"
  using assms
  by (simp add: handler_decoded callback_write writeFile_callback_def count_of_Cons count_of_Nil)

theorem exportBody_write_failure_witness:
  "handleDownloadResponseBody node_host (showing response1) (Some ''/root/hello.txt'')
       (Some (IOError ''EACCES'')) =
     (Resolved,
      [ShowSaveDialog (save_options ''txt''),
       WriteFile ''/root/hello.txt'' ''Hello'' no_options,
       ConsoleWarn ''Failed to save response body'' (Some (IOError ''EACCES'')),
       TrackEvent ''Response'' ''Save Failure''],
      showing response1)"
  using exportBody_write_failure
    [of "showing response1" response1 node_host "''Hello''" "''/root/hello.txt''"
        "IOError ''EACCES''"]
    node_Buffer_hello
  by (simp add: showing_response response1_fields node_host_fields default_extension_def
      mime_excerpt_def)

section \<open>The decoding of the body\<close>

text \<open>
  C9. The body is decoded (\<open>new Buffer(body, encoding)\<close>, line 39) before the dialog is
  shown and outside any \<open>try\<close>. For every loaded response: if the decoding throws, the
  promise of the handler is rejected with that exception and no call to the host has been
  made (no dialog, no write); if it returns bytes, the promise is resolved and the dialog
  is shown. With the \<open>Buffer\<close> of Node the decoding throws a \<open>TypeError\<close> exactly for the
  encoding tags that it does not support, and cannot throw for a supported tag.
\<close>

theorem exportBody_decode_failure:
  assumes "response (state c) = Some r"
  shows "(\<forall>exn. Buffer_new h (body r) (encoding r) = Inl exn \<longrightarrow>
            handleDownloadResponseBody h c filename err = (Rejected exn, [], c)) \<and>
         (\<forall>buf. Buffer_new h (body r) (encoding r) = Inr buf \<longrightarrow>
            fst (handleDownloadResponseBody h c filename err) = Resolved \<and>
            count_of is_dialog (fst (snd (handleDownloadResponseBody h c filename err))) = 1) \<and>
         (Buffer_new h = node_Buffer \<longrightarrow>
            (\<not> supported_encoding (encoding r) \<longrightarrow>
               handleDownloadResponseBody h c filename err =
                 (Rejected (TypeError (''Unknown encoding: '' @ encoding r)), [], c)) \<and>
            (supported_encoding (encoding r) \<longrightarrow>
               fst (handleDownloadResponseBody h c filename err) = Resolved))"
proof (intro conjI allI impI)
  fix exn assume "Buffer_new h (body r) (encoding r) = Inl exn"
  with assms show "handleDownloadResponseBody h c filename err = (Rejected exn, [], c)"
    by (rule handler_raise)
next
  fix buf assume d: "Buffer_new h (body r) (encoding r) = Inr buf"
  show "fst (handleDownloadResponseBody h c filename err) = Resolved"
    by (simp add: handler_decoded [OF assms d])
  have "count_of is_dialog (showSaveDialog_callback buf filename err) = 0"
    by (simp add: showSaveDialog_callback_def writeFile_callback_def count_of_Cons count_of_Nil
        split: option.splits)
  then show "count_of is_dialog (fst (snd (handleDownloadResponseBody h c filename err))) = 1"
    by (simp add: handler_decoded [OF assms d] count_of_Cons)
next
  assume n: "Buffer_new h = node_Buffer" and "\<not> supported_encoding (encoding r)"
  then have "Buffer_new h (body r) (encoding r)
      = Inl (TypeError (''Unknown encoding: '' @ encoding r))"
    by (simp add: node_Buffer_refuses)
  with assms show "handleDownloadResponseBody h c filename err =
      (Rejected (TypeError (''Unknown encoding: '' @ encoding r)), [], c)"
    by (rule handler_raise)
next
  assume n: "Buffer_new h = node_Buffer" and "supported_encoding (encoding r)"
  then obtain buf where d: "Buffer_new h (body r) (encoding r) = Inr buf"
    using node_Buffer_accepts by force
  show "fst (handleDownloadResponseBody h c filename err) = Resolved"
    by (simp add: handler_decoded [OF assms d])
qed

theorem exportBody_decode_failure_witness:
  "handleDownloadResponseBody node_host (showing response_rot13) (Some ''/tmp/out'') None =
     (Rejected (TypeError ''Unknown encoding: rot13''), [], showing response_rot13) \<and>
   fst (handleDownloadResponseBody node_host (showing response1) (Some ''/tmp/out'') None) =
     Resolved \<and>
   count_of is_dialog
     (fst (snd (handleDownloadResponseBody node_host (showing response1) (Some ''/tmp/out'')
        None))) = 1"
  using exportBody_decode_failure
      [of "showing response_rot13" response_rot13 node_host "Some ''/tmp/out''" None]
    exportBody_decode_failure
      [of "showing response1" response1 node_host "Some ''/tmp/out''" None]
    node_Buffer_rot13 node_Buffer_hello not_supported_rot13 supported_base64
  by (simp add: showing_response response1_fields response_rot13_fields node_host_fields)

section \<open>The effects of an export\<close>

text \<open>
  C8, as stated, fails: a loaded response whose encoding tag is \<open>rot13\<close> makes the
  decoding throw, and the export shows no dialog and tracks no outcome.
\<close>

theorem exportBody_one_dialog_counterexample:
  "response (state (showing response_rot13)) = Some response_rot13 \<and>
   count_of is_dialog
     (fst (snd (handleDownloadResponseBody node_host (showing response_rot13)
        (Some ''/tmp/out'') None))) = 0 \<and>
   count_of is_track
     (fst (snd (handleDownloadResponseBody node_host (showing response_rot13)
        (Some ''/tmp/out'') None))) = 0"
proof -
  have "handleDownloadResponseBody node_host (showing response_rot13) (Some ''/tmp/out'') None
      = (Rejected (TypeError ''Unknown encoding: rot13''), [], showing response_rot13)"
    by (rule handler_raise [of _ response_rot13])
      (simp_all add: showing_response response_rot13_fields node_host_fields node_Buffer_rot13)
  then show ?thesis
    by (simp add: showing_response count_of_Nil)
qed

text \<open>
  C8, amended. For every export of a loaded response whose body the decoding accepts:
  the promise is resolved, the component is returned as it was, and the calls to the host
  are one save dialog, at most one \<open>fs.writeFile\<close> and one tracked outcome (Save Cancel,
  Save Success, or Save Failure, the last one after the console warning that carries the
  error), and nothing else.
\<close>

theorem exportBody_frame:
  assumes "response (state c) = Some r"
    and "Buffer_new h (body r) (encoding r) = Inr buf"
  shows "fst (handleDownloadResponseBody h c filename err) = Resolved \<and>
         snd (snd (handleDownloadResponseBody h c filename err)) = c \<and>
         count_of is_dialog (fst (snd (handleDownloadResponseBody h c filename err))) = 1 \<and>
         count_of is_write (fst (snd (handleDownloadResponseBody h c filename err))) \<le> 1 \<and>
         count_of is_track (fst (snd (handleDownloadResponseBody h c filename err))) = 1 \<and>
         (fst (snd (handleDownloadResponseBody h c filename err)) =
            [ShowSaveDialog (save_options (default_extension h (contentType r))),
             TrackEvent ''Response'' ''Save Cancel''] \<or>
          (\<exists>path. fst (snd (handleDownloadResponseBody h c filename err)) =
            [ShowSaveDialog (save_options (default_extension h (contentType r))),
             WriteFile path buf no_options,
             TrackEvent ''Response'' ''Save Success'']) \<or>
          (\<exists>path e. fst (snd (handleDownloadResponseBody h c filename err)) =
            [ShowSaveDialog (save_options (default_extension h (contentType r))),
             WriteFile path buf no_options,
             ConsoleWarn ''Failed to save response body'' (Some e),
             TrackEvent ''Response'' ''Save Failure'']))"
  by (simp add: handler_decoded [OF assms] showSaveDialog_callback_def writeFile_callback_def
      count_of_Cons count_of_Nil split: option.splits)

theorem exportBody_frame_witness:
  "fst (handleDownloadResponseBody node_host (showing response1) (Some ''/tmp/hello.txt'')
      None) = Resolved \<and>
   snd (snd (handleDownloadResponseBody node_host (showing response1) (Some ''/tmp/hello.txt'')
      None)) = showing response1 \<and>
   count_of is_dialog
     (fst (snd (handleDownloadResponseBody node_host (showing response1)
        (Some ''/tmp/hello.txt'') None))) = 1 \<and>
   count_of is_write
     (fst (snd (handleDownloadResponseBody node_host (showing response1)
        (Some ''/tmp/hello.txt'') None))) \<le> 1 \<and>
   count_of is_track
     (fst (snd (handleDownloadResponseBody node_host (showing response1)
        (Some ''/tmp/hello.txt'') None))) = 1"
  using exportBody_frame
    [of "showing response1" response1 node_host "''Hello''" "Some ''/tmp/hello.txt''" None]
    node_Buffer_hello
  by (simp add: showing_response response1_fields node_host_fields)

section \<open>The default extension\<close>

text \<open>
  C7. The extension offered by the save dialog is the answer of the MIME lookup on the
  content-type of the response (\<open>mime.extension(contentType) || ''\<close>): the dialog of an
  export has the single filter \<open>Download\<close> with that extension; a content-type that the
  lookup recognises gives its extension, \<open>json\<close> for \<open>application/json\<close> with the table
  of mime-types, and a content-type that the lookup does not recognise gives the empty
  extension.
\<close>

theorem exportBody_default_extension:
  assumes "response (state c) = Some r"
    and "Buffer_new h (body r) (encoding r) = Inr buf"
  shows "(\<exists>rest. fst (snd (handleDownloadResponseBody h c filename err)) =
            ShowSaveDialog
              \<lparr>title = ''Save Response'', buttonLabel = ''Save'',
               filters = [(''Download'', [default_extension h (contentType r)])]\<rparr> # rest) \<and>
         (\<forall>e. mime_extension h (contentType r) = Some e \<longrightarrow>
            default_extension h (contentType r) = e) \<and>
         (mime_extension h (contentType r) = None \<longrightarrow>
            default_extension h (contentType r) = []) \<and>
         (contentType r = ''application/json'' \<and> mime_extension h = mime_excerpt \<longrightarrow>
            default_extension h (contentType r) = ''json'')"
  by (simp add: handler_decoded [OF assms] save_options_def default_extension_def
      mime_excerpt_def)

theorem exportBody_default_extension_witness:
  "(\<exists>rest. fst (snd (handleDownloadResponseBody node_host (showing response2)
        (Some ''/tmp/out.json'') None)) =
      ShowSaveDialog
        \<lparr>title = ''Save Response'', buttonLabel = ''Save'',
         filters = [(''Download'', [''json''])]\<rparr> # rest) \<and>
   default_extension node_host ''application/json'' = ''json'' \<and>
   mime_extension node_host ''application/x-unknown'' = None \<and>
   default_extension node_host ''application/x-unknown'' = []"
  using exportBody_default_extension
      [of "showing response2" response2 node_host "''{}''" "Some ''/tmp/out.json''" None]
    exportBody_default_extension
      [of "showing (response2\<lparr>contentType := ''application/x-unknown''\<rparr>)"
          "response2\<lparr>contentType := ''application/x-unknown''\<rparr>" node_host "''{}''"
          "Some ''/tmp/out''" None]
    node_Buffer_braces
  by (auto simp: showing_response response2_fields node_host_fields mime_excerpt_def)

section \<open>The error field\<close>

text \<open>
  C10. The handler does not read the error field: for a response with an error string
  (not empty) the export completes as, and makes the calls of, the export of the same
  response without it, and a write that is made carries the bytes decoded from the body
  field. The viewer of the first tab is given the error text as its body and the source
  preview mode, with the error flag set and no filter callback.
\<close>

theorem exportBody_ignores_error:
  assumes "e \<noteq> []" and "request (props c) = Some req"
  shows "fst (handleDownloadResponseBody h (setState (Some (r\<lparr>error := Some e\<rparr>)) c) filename err) =
           fst (handleDownloadResponseBody h (setState (Some (r\<lparr>error := None\<rparr>)) c) filename err) \<and>
         fst (snd (handleDownloadResponseBody h (setState (Some (r\<lparr>error := Some e\<rparr>)) c) filename err)) =
           fst (snd (handleDownloadResponseBody h (setState (Some (r\<lparr>error := None\<rparr>)) c) filename err)) \<and>
         (Buffer_new h (body r) (encoding r) = Inr buf \<and> path \<noteq> [] \<longrightarrow>
            WriteFile path buf no_options
              \<in> set (fst (snd (handleDownloadResponseBody h
                    (setState (Some (r\<lparr>error := Some e\<rparr>)) c) (Some path) err)))) \<and>
         (\<exists>timer vp.
            render src_mode (setState (Some (r\<lparr>error := Some e\<rparr>)) c) =
              ResponseView timer (r\<lparr>error := Some e\<rparr>) vp \<and>
            v_body vp = e \<and> v_previewMode vp = src_mode \<and> v_error vp \<and> \<not> v_updateFilter vp)"
proof -
  have same: "handleDownloadResponseBody h (setState (Some (r\<lparr>error := x\<rparr>)) c) filename err =
      (case Buffer_new h (body r) (encoding r) of
         Inl exn \<Rightarrow> (Rejected exn, [], setState (Some (r\<lparr>error := x\<rparr>)) c)
       | Inr buf \<Rightarrow>
           (Resolved,
            ShowSaveDialog (save_options (default_extension h (contentType r))) #
              showSaveDialog_callback buf filename err,
            setState (Some (r\<lparr>error := x\<rparr>)) c))" for x filename
    by (simp add: handleDownloadResponseBody_def state_setState split: sum.splits)
  have "fst (handleDownloadResponseBody h (setState (Some (r\<lparr>error := Some e\<rparr>)) c) filename err) =
      fst (handleDownloadResponseBody h (setState (Some (r\<lparr>error := None\<rparr>)) c) filename err)"
    by (simp add: same split: sum.splits)
  moreover have "fst (snd (handleDownloadResponseBody h (setState (Some (r\<lparr>error := Some e\<rparr>)) c) filename err)) =
      fst (snd (handleDownloadResponseBody h (setState (Some (r\<lparr>error := None\<rparr>)) c) filename err))"
    by (simp add: same split: sum.splits)
  moreover have "Buffer_new h (body r) (encoding r) = Inr buf \<and> path \<noteq> [] \<longrightarrow>
      WriteFile path buf no_options
        \<in> set (fst (snd (handleDownloadResponseBody h
              (setState (Some (r\<lparr>error := Some e\<rparr>)) c) (Some path) err)))"
    by (simp add: same callback_write)
  moreover have "\<exists>timer vp.
      render src_mode (setState (Some (r\<lparr>error := Some e\<rparr>)) c) =
        ResponseView timer (r\<lparr>error := Some e\<rparr>) vp \<and>
      v_body vp = e \<and> v_previewMode vp = src_mode \<and> v_error vp \<and> \<not> v_updateFilter vp"
    using assms by (simp add: render_def state_setState props_setState truthy_def)
  ultimately show ?thesis by blast
qed

theorem exportBody_ignores_error_witness:
  "fst (snd (handleDownloadResponseBody node_host (setState (Some response_failed)
       (showing response1)) (Some ''/tmp/out'') None)) =
     fst (snd (handleDownloadResponseBody node_host
       (setState (Some (response_failed\<lparr>error := None\<rparr>)) (showing response1))
       (Some ''/tmp/out'') None)) \<and>
   WriteFile ''/tmp/out'' ''ERR'' no_options
     \<in> set (fst (snd (handleDownloadResponseBody node_host (setState (Some response_failed)
          (showing response1)) (Some ''/tmp/out'') None))) \<and>
   (\<exists>timer vp.
      render ''source'' (setState (Some response_failed) (showing response1)) =
        ResponseView timer response_failed vp \<and>
      v_body vp = ''Error: connect ECONNREFUSED'' \<and> v_previewMode vp = ''source'')"
proof -
  have p1: "''Error: connect ECONNREFUSED'' \<noteq> []"
    by simp
  have p2: "request (props (showing response1)) = Some request1"
    by (simp add: showing_def props_of_def)
  have d: "Buffer_new node_host (body response_failed) (encoding response_failed) = Inr ''ERR''"
    by (simp add: response_failed_fields node_host_fields node_Buffer_err)
  note t = exportBody_ignores_error
    [where e = "''Error: connect ECONNREFUSED''" and c = "showing response1"
       and req = request1 and h = node_host and r = response_failed
       and filename = "Some ''/tmp/out''" and err = None and src_mode = "''source''"
       and buf = "''ERR''" and path = "''/tmp/out''", OF p1 p2,
     unfolded response_failed_fields(4)]
  from t d show ?thesis
    by blast
qed

section \<open>The response loader\<close>

lemma fold_latest_None:
  "fold (\<lambda>r best. if parentId r = rid then more_recent r best else best) db acc = None
     \<longleftrightarrow> acc = None \<and> (\<forall>r\<in>set db. parentId r \<noteq> rid)"
  by (induction db arbitrary: acc) (auto simp: more_recent_def split: option.splits)

lemma fold_latest_Some:
  "fold (\<lambda>r best. if parentId r = rid then more_recent r best else best) db acc = Some r \<Longrightarrow>
     (acc = Some r \<or> (r \<in> set db \<and> parentId r = rid)) \<and>
     (\<forall>a. acc = Some a \<longrightarrow> created a \<le> created r) \<and>
     (\<forall>r'\<in>set db. parentId r' = rid \<longrightarrow> created r' \<le> created r)"
proof (induction db arbitrary: acc)
  case Nil
  then show ?case by simp
next
  case (Cons x xs)
  let ?acc' = "if parentId x = rid then more_recent x acc else acc"
  from Cons.prems have f: "fold (\<lambda>r best. if parentId r = rid then more_recent r best else best) xs ?acc' = Some r"
    by simp
  note ih = Cons.IH [OF f]
  show ?case
  proof (cases "parentId x = rid")
    case False
    with ih show ?thesis by auto
  next
    case True
    with ih show ?thesis
      by (cases acc) (auto simp: more_recent_def split: if_splits)
  qed
qed

lemma getLatestByParentId_None:
  "getLatestByParentId db rid = None \<longleftrightarrow> (\<forall>r\<in>set db. parentId r \<noteq> rid)"
  by (simp add: getLatestByParentId_def fold_latest_None)

lemma getLatestByParentId_Some:
  assumes "getLatestByParentId db rid = Some r"
  shows "r \<in> set db" and "parentId r = rid"
    and "\<forall>r'\<in>set db. parentId r' = rid \<longrightarrow> created r' \<le> created r"
  using fold_latest_Some [of rid db None r] assms
  by (simp_all add: getLatestByParentId_def)

lemma getResponse_then_resumed:
  "getResponse_resumed db (length (pending c)) (getResponse (Some req) c) =
     setState (getLatestByParentId db (request_id req)) c"
  by (simp add: getResponse_def getResponse_resumed_def setState_def)

lemma latest_req1: "getLatestByParentId storage ''req_1'' = Some response1"
  by (simp add: getLatestByParentId_def storage_def more_recent_def response1_old_def
      response1_def response2_def)

lemma latest_req2: "getLatestByParentId storage ''req_2'' = Some response2"
  by (simp add: getLatestByParentId_def storage_def more_recent_def response1_old_def
      response1_def response2_def)

lemma latest_req3: "getLatestByParentId storage ''req_3'' = None"
  by (simp add: getLatestByParentId_def storage_def more_recent_def response1_old_def
      response1_def response2_def)

text \<open>
  C3. Without a request the loader sets the response of the state to absent at once and
  starts no lookup. With a request, when its lookup resolves, the response of the state
  is the answer of the storage for the id of the request: absent exactly when no stored
  response has that parent id, and otherwise a stored response with that parent id that
  no stored response with that parent id is created after.
\<close>

theorem getResponse_latest:
  "response (state (getResponse None c)) = None \<and>
   pending (getResponse None c) = pending c \<and>
   response (state (getResponse_resumed db (length (pending c)) (getResponse (Some req) c))) =
     getLatestByParentId db (request_id req) \<and>
   (getLatestByParentId db rid = None \<longleftrightarrow> (\<forall>r\<in>set db. parentId r \<noteq> rid)) \<and>
   (\<forall>r. getLatestByParentId db rid = Some r \<longrightarrow>
      r \<in> set db \<and> parentId r = rid \<and>
      (\<forall>r'\<in>set db. parentId r' = rid \<longrightarrow> created r' \<le> created r))"
  using getLatestByParentId_Some [of db rid]
  by (simp add: getResponse_then_resumed state_setState getLatestByParentId_None)
    (simp add: getResponse_def state_setState pending_setState)

theorem getResponse_latest_witness:
  "response (state (getResponse_resumed storage 0
      (getResponse (Some request1) (construct (props_of (Some request1)))))) = Some response1 \<and>
   response1 \<in> set storage \<and> parentId response1 = ''req_1'' \<and>
   created response1_old \<le> created response1 \<and>
   getLatestByParentId storage ''req_3'' = None"
  using getResponse_latest [of "construct (props_of (Some request1))" storage request1 "''req_1''"]
    getResponse_latest [of "construct (props_of (Some request1))" storage request1 "''req_3''"]
    latest_req1 latest_req3
  by (simp add: construct_def request1_def storage_def response1_old_def response1_def)

section \<open>Switching the request\<close>

lemma resolve_in_order_all:
  "length (pending c) = n \<Longrightarrow> pending c \<noteq> [] \<Longrightarrow>
     response (state (resolve_in_order db n c)) = getLatestByParentId db (last (pending c)) \<and>
     pending (resolve_in_order db n c) = [] \<and>
     props (resolve_in_order db n c) = props c"
proof (induction n arbitrary: c)
  case 0
  then show ?case by simp
next
  case (Suc n)
  then obtain x xs where p: "pending c = x # xs"
    by (cases "pending c") auto
  let ?c' = "getResponse_resumed db 0 c"
  have c': "?c' = setState (getLatestByParentId db x) (c\<lparr>pending := xs\<rparr>)"
    using p by (simp add: getResponse_resumed_def)
  show ?case
  proof (cases "xs = []")
    case True
    with Suc.prems p have "n = 0" by simp
    with c' p True show ?thesis
      by (simp add: state_setState pending_setState props_setState)
  next
    case False
    have "length (pending ?c') = n"
      using Suc.prems p c' by (simp add: pending_setState)
    moreover have "pending ?c' \<noteq> []"
      using False c' by (simp add: pending_setState)
    ultimately have "response (state (resolve_in_order db n ?c'))
          = getLatestByParentId db (last (pending ?c')) \<and>
        pending (resolve_in_order db n ?c') = [] \<and>
        props (resolve_in_order db n ?c') = props ?c'"
      by (rule Suc.IH)
    with c' p False show ?thesis
      by (simp add: pending_setState props_setState)
  qed
qed

lemma displayed_render:
  "request (props c) = Some req \<Longrightarrow> displayed (render m c) = response (state c)"
  by (simp add: render_def displayed_def Let_def split: option.splits)

lemma stale_run_eq:
  "stale_run = \<lparr>props = props_of (Some request2), state = \<lparr>response = Some response1\<rparr>, pending = []\<rparr>"
  by (simp add: stale_run_def run_def construct_def componentDidMount_def
      componentWillReceiveProps_def getResponse_def getResponse_resumed_def setState_def
      props_of_def request1_def request2_def latest_req1 latest_req2)

text \<open>
  C2, as stated, fails: the pane is mounted with the first request and switched to the
  second while the first lookup is in flight; the lookup of the second request resolves,
  then the one of the first. The second request is active and the pane displays the
  response of the first, though the storage holds one for the second.
\<close>

theorem switch_request_stale_counterexample:
  "request (props stale_run) = Some request2 \<and>
   displayed (render ''source'' stale_run) = Some response1 \<and>
   parentId response1 = request_id request1 \<and>
   request_id request1 \<noteq> request_id request2 \<and>
   getLatestByParentId storage (request_id request2) = Some response2 \<and>
   response2 \<noteq> response1"
  using latest_req2
  by (simp add: stale_run_eq props_of_def render_def displayed_def request1_def request2_def
      response1_def response2_def)

text \<open>
  C2, amended. After the active request is switched to a request, once the lookups in
  flight, the one started by the switch included, have all resolved in the order in which
  they were started, the pane displays the latest stored response of that request (the
  placeholder if it has none): a response it displays then has the id of that request as
  its parent id.
\<close>

theorem switch_request_in_order:
  assumes "request nextProps = Some r2"
  shows "pending (resolve_in_order db (Suc (length (pending c)))
            (componentWillReceiveProps nextProps c)) = [] \<and>
         props (resolve_in_order db (Suc (length (pending c)))
            (componentWillReceiveProps nextProps c)) = nextProps \<and>
         displayed (render m (resolve_in_order db (Suc (length (pending c)))
            (componentWillReceiveProps nextProps c))) = getLatestByParentId db (request_id r2) \<and>
         (\<forall>r. displayed (render m (resolve_in_order db (Suc (length (pending c)))
            (componentWillReceiveProps nextProps c))) = Some r \<longrightarrow> parentId r = request_id r2)"
proof -
  let ?c0 = "componentWillReceiveProps nextProps c"
  let ?c' = "resolve_in_order db (Suc (length (pending c))) ?c0"
  have p: "pending ?c0 = pending c @ [request_id r2]" and pr: "props ?c0 = nextProps"
    using assms by (simp_all add: componentWillReceiveProps_def getResponse_def)
  have "response (state ?c') = getLatestByParentId db (last (pending ?c0)) \<and>
      pending ?c' = [] \<and> props ?c' = props ?c0"
    by (rule resolve_in_order_all) (simp_all add: p)
  then have r: "response (state ?c') = getLatestByParentId db (request_id r2)"
    and e: "pending ?c' = []" and q: "props ?c' = nextProps"
    by (simp_all add: p pr)
  have d: "displayed (render m ?c') = getLatestByParentId db (request_id r2)"
    using displayed_render [of ?c' r2 m] assms q r by simp
  show ?thesis
    using e q d getLatestByParentId_Some(2) [of db "request_id r2"] by simp
qed

theorem switch_request_in_order_witness:
  "request (props_of (Some request2)) = Some request2 \<and>
   displayed (render ''source''
     (resolve_in_order storage
        (Suc (length (pending (componentDidMount (construct (props_of (Some request1)))))))
        (componentWillReceiveProps (props_of (Some request2))
           (componentDidMount (construct (props_of (Some request1))))))) = Some response2 \<and>
   parentId response2 = request_id request2"
  using switch_request_in_order
    [of "props_of (Some request2)" request2 storage
        "componentDidMount (construct (props_of (Some request1)))" "''source''"]
    latest_req2
  by (simp add: props_of_def request2_def)


end
